theory Spec2Isabelle
  imports Complex_Main
begin

section \<open>JavaScript values read and written by the hex grid\<close>

text \<open>
  The grid computes with the properties \<open>x\<close>, \<open>y\<close>, \<open>z\<close> of plain objects. A property
  that is absent reads as \<open>undefined\<close>, and arithmetic on \<open>undefined\<close> gives \<open>NaN\<close>. The
  numbers of the grid are integers, held in IEEE 754 double precision: \<open>Num n\<close> is the
  number \<open>n\<close>, and it is a number of the program when \<open>n\<close> is representable, which every
  integer of magnitude up to \<open>2^53\<close> is. The two zeros are not distinguished (they print
  alike and add alike).
\<close>

datatype jsval = Num int | PosInf | NegInf | NaN | Undefined

text \<open>
  Rounding of an integer to the nearest double, ties to the even significand. A double
  of magnitude in \<open>[2^(52+e), 2^(53+e))\<close> is a multiple of the \<open>quantum\<close> \<open>2^e\<close>; a result
  that reaches \<open>2^1024\<close> is an infinity.
\<close>

fun quantum :: "nat \<Rightarrow> nat" where
  "quantum m = (if m < 2 ^ 53 then 1 else 2 * quantum (m div 2))"

declare quantum.simps [simp del]

definition round_even :: "nat \<Rightarrow> nat \<Rightarrow> nat" where
  "round_even m q =
     (let k = m div q; r = m mod q in
      if 2 * r < q then k * q
      else if q < 2 * r then (k + 1) * q
      else if even k then k * q else (k + 1) * q)"

definition fl :: "int \<Rightarrow> jsval" where
  "fl n =
     (let m = round_even (nat \<bar>n\<bar>) (quantum (nat \<bar>n\<bar>)) in
      if 2 ^ 1024 \<le> m then (if n < 0 then NegInf else PosInf)
      else Num (if n < 0 then - int m else int m))"

text \<open>
  Unary minus, binary \<open>+\<close> and binary \<open>-\<close>: the exact result, rounded; \<open>undefined\<close>
  converts to \<open>NaN\<close>, and so does the difference of equal infinities.
\<close>

fun jsneg :: "jsval \<Rightarrow> jsval" where
  "jsneg (Num a) = Num (- a)"
| "jsneg PosInf = NegInf"
| "jsneg NegInf = PosInf"
| "jsneg NaN = NaN"
| "jsneg Undefined = NaN"

fun jsadd :: "jsval \<Rightarrow> jsval \<Rightarrow> jsval" where
  "jsadd (Num a) (Num b) = fl (a + b)"
| "jsadd (Num a) PosInf = PosInf"
| "jsadd (Num a) NegInf = NegInf"
| "jsadd PosInf (Num b) = PosInf"
| "jsadd NegInf (Num b) = NegInf"
| "jsadd PosInf PosInf = PosInf"
| "jsadd NegInf NegInf = NegInf"
| "jsadd u v = NaN"

fun jssub :: "jsval \<Rightarrow> jsval \<Rightarrow> jsval" where
  "jssub (Num a) (Num b) = fl (a - b)"
| "jssub (Num a) PosInf = NegInf"
| "jssub (Num a) NegInf = PosInf"
| "jssub PosInf (Num b) = PosInf"
| "jssub NegInf (Num b) = NegInf"
| "jssub PosInf NegInf = PosInf"
| "jssub NegInf PosInf = NegInf"
| "jssub u v = NaN"

subsection \<open>Conversion to a string in a template literal\<close>

definition digit :: "nat \<Rightarrow> char" where
  "digit d = ''0123456789'' ! d"

fun toString_nat :: "nat \<Rightarrow> string" where
  "toString_nat n =
     (if n < 10 then [digit n] else toString_nat (n div 10) @ [digit (n mod 10)])"

declare toString_nat.simps [simp del]

text \<open>
  A number prints with the digits of the shortest decimal that converts back to it
  (of several, the one closest to it; of two equally close, the even one). For an
  integer of magnitude up to \<open>2^53\<close> this is its decimal expansion, since no other
  integer rounds to it or, for \<open>2^53\<close>, is as close. Above, \<open>shortest v\<close> looks for that
  decimal among the multiples of \<open>10\<close>, \<open>100\<close>, ... next to \<open>v\<close>; it prints in full up to
  21 digits and in exponent form beyond.
\<close>

definition rounds_to :: "nat \<Rightarrow> nat \<Rightarrow> bool" where
  "rounds_to w v = (0 < w \<and> round_even w (quantum w) = v)"

definition closest :: "nat \<Rightarrow> nat \<Rightarrow> nat option" where
  "closest v p =
     (let lo = (v div p) * p; hi = lo + p;
          a = rounds_to lo v; b = rounds_to hi v in
      if a \<and> b then
        (if v - lo < hi - v then Some lo
         else if hi - v < v - lo then Some hi
         else if even (v div p) then Some lo else Some hi)
      else if a then Some lo
      else if b then Some hi
      else None)"

fun shortest_from :: "nat \<Rightarrow> nat \<Rightarrow> nat \<Rightarrow> nat \<Rightarrow> nat" where
  "shortest_from 0 v p best = best"
| "shortest_from (Suc fuel) v p best =
     (case closest v (10 * p) of
        None \<Rightarrow> best
      | Some w \<Rightarrow> shortest_from fuel v (10 * p) w)"

definition shortest :: "nat \<Rightarrow> nat" where
  "shortest v = shortest_from 400 v 1 v"

definition exponent_form :: "string \<Rightarrow> string" where
  "exponent_form d =
     (let s = rev (dropWhile (\<lambda>c. c = CHR ''0'') (rev d)) in
      hd s # (if 1 < length s then ''.'' @ tl s else []) @ ''e+'' @ toString_nat (length d - 1))"

definition toString_pos :: "nat \<Rightarrow> string" where
  "toString_pos m =
     (if m \<le> 2 ^ 53 then toString_nat m
      else (let d = toString_nat (shortest m) in
            if length d \<le> 21 then d else exponent_form d))"

definition toString_int :: "int \<Rightarrow> string" where
  "toString_int i = (if i < 0 then ''-'' @ toString_pos (nat (- i)) else toString_pos (nat i))"

fun toString :: "jsval \<Rightarrow> string" where
  "toString (Num i) = toString_int i"
| "toString PosInf = ''Infinity''"
| "toString NegInf = ''-Infinity''"
| "toString NaN = ''NaN''"
| "toString Undefined = ''undefined''"

section \<open>The grid component of \<open>src/ui/hex.js\<close>\<close>

text \<open>
  An object with the properties \<open>x\<close>, \<open>y\<close>, \<open>z\<close>: the argument of a click, the props of
  a token, an entry of the list that \<open>_getNearGrids\<close> returns. The fields are named
  \<open>cx\<close>, \<open>cy\<close>, \<open>cz\<close>.
\<close>

record cube =
  cx :: jsval
  cy :: jsval
  cz :: jsval

text \<open>The key \<open>`${grid.x},${grid.y},${grid.z}`\<close> of a cell in the colour map.\<close>

definition key :: "cube \<Rightarrow> string" where
  "key grid = toString (cx grid) @ '','' @ toString (cy grid) @ '','' @ toString (cz grid)"

type_synonym colormap = "string \<rightharpoonup> string"

text \<open>
  \<open>_getNearGrids(args, range)\<close>: the two nested \<open>for\<close> loops, each as a recursive
  function on its counter, pushing onto \<open>results\<close>; then \<open>args\<close> itself is pushed.
  The parameter \<open>range\<close> is written \<open>rng\<close> and is an integer. The counters \<open>dx\<close>, \<open>dy\<close>
  and the bounds \<open>-range\<close>, \<open>range + 1\<close>, \<open>minDy\<close>, \<open>maxDy\<close> are integers of magnitude at
  most \<open>\<bar>range\<bar> + 1\<close>: for a range of magnitude below \<open>2^53\<close> their arithmetic is exact,
  so they are integers here. The sums with \<open>x\<close> and \<open>y\<close> in the loop body are rounded.
\<close>

definition near :: "cube \<Rightarrow> int \<Rightarrow> int \<Rightarrow> cube" where
  "near args dx dy =
     \<lparr> cx = jsadd (cx args) (Num dx),
       cy = jsadd (cy args) (Num dy),
       cz = jssub (jssub (jssub (jsneg (cx args)) (cy args)) (Num dx)) (Num dy) \<rparr>"

function dy_loop :: "cube \<Rightarrow> int \<Rightarrow> int \<Rightarrow> int \<Rightarrow> cube list \<Rightarrow> cube list" where
  "dy_loop args dx maxDy dy results =
     (if dy < maxDy + 1
      then dy_loop args dx maxDy (dy + 1) (results @ [near args dx dy])
      else results)"
  by pat_completeness auto
termination
  by (relation "measure (\<lambda>(args, dx, maxDy, dy, results). nat (maxDy + 1 - dy))") auto

declare dy_loop.simps [simp del]

function dx_loop :: "cube \<Rightarrow> int \<Rightarrow> int \<Rightarrow> cube list \<Rightarrow> cube list" where
  "dx_loop args rng dx results =
     (if dx < rng + 1
      then (let minDy = max (- rng) (- dx - rng);
                maxDy = min rng (- dx + rng)
            in dx_loop args rng (dx + 1) (dy_loop args dx maxDy minDy results))
      else results)"
  by pat_completeness auto
termination
  by (relation "measure (\<lambda>(args, rng, dx, results). nat (rng + 1 - dx))") auto

declare dx_loop.simps [simp del]

definition getNearGrids :: "cube \<Rightarrow> int \<Rightarrow> cube list" where
  "getNearGrids args rng = dx_loop args rng (- rng) [] @ [args]"

text \<open>
  \<open>getLimitNeighbors(center, range = 3)\<close>: \<open>None\<close> for the center is a falsy
  (\<open>undefined\<close>) argument, for which the function returns \<open>undefined\<close>; \<open>None\<close> for
  the range is an omitted argument, which takes the default 3.
\<close>

definition getLimitNeighbors :: "cube option \<Rightarrow> int option \<Rightarrow> colormap option" where
  "getLimitNeighbors center range_arg =
     (let rng = (case range_arg of None \<Rightarrow> 3 | Some r \<Rightarrow> r) in
      case center of
        None \<Rightarrow> None
      | Some c \<Rightarrow>
          Some (fold (\<lambda>grid colorMap. colorMap(key grid \<mapsto> ''#22ff66''))
                  (getNearGrids c rng) Map.empty))"

text \<open>\<open>inRange(target, center, range)\<close>: the operator \<open>in\<close> throws a \<open>TypeError\<close> when its
  right operand is \<open>undefined\<close>.\<close>

datatype error = TypeError

definition inRange :: "cube \<Rightarrow> cube option \<Rightarrow> int option \<Rightarrow> error + bool" where
  "inRange target center range_arg =
     (let coordinate = key target;
          neighbors = getLimitNeighbors center range_arg
      in case neighbors of
           None \<Rightarrow> Inl TypeError
         | Some m \<Rightarrow> Inr (if coordinate \<in> dom m then True else False))"

subsection \<open>Props, state and the calls made to the host application\<close>

text \<open>
  \<open>props.children\<close> is \<open>undefined\<close> (no child), one React element (the token, whose
  own props carry its position) or an array of elements. An element and an array have a
  property \<open>props\<close> (absent on the array) and no property \<open>x\<close>, \<open>y\<close> or \<open>z\<close>.
\<close>

datatype children = NoChildren | Element cube | Elements "cube list"

text \<open>
  The props that the handlers read: \<open>range\<close> (written \<open>rng\<close>; \<open>defaultProps\<close> gives 3),
  \<open>colorMap\<close>, \<open>children\<close>, and whether each callback is set.
\<close>

record props =
  rng :: int
  colorMap_prop :: colormap
  children :: children
  has_onClick :: bool
  has_onMouseOver :: bool
  has_onMouseOut :: bool

record state =
  colorMap :: "colormap option"

text \<open>A call of one of the callbacks of the props, with its argument.\<close>

datatype call = OnClick cube | OnMouseOver cube | OnMouseOut cube

definition constructor :: "props \<Rightarrow> state" where
  "constructor p = \<lparr> colorMap = Some (colorMap_prop p) \<rparr>"

text \<open>\<open>_highlightNeighbor(colorMap)\<close> is \<open>setState({colorMap: colorMap})\<close>.\<close>

definition highlightNeighbor :: "state \<Rightarrow> colormap option \<Rightarrow> state" where
  "highlightNeighbor st m = st\<lparr> colorMap := m \<rparr>"

text \<open>
  The value of \<open>props.children\<close> passed as \<open>center\<close>: falsy when there is no child;
  otherwise an object whose \<open>x\<close>, \<open>y\<close>, \<open>z\<close> read as \<open>undefined\<close>.
\<close>

fun children_object :: "children \<Rightarrow> cube option" where
  "children_object NoChildren = None"
| "children_object (Element tprops) = Some \<lparr> cx = Undefined, cy = Undefined, cz = Undefined \<rparr>"
| "children_object (Elements ts) = Some \<lparr> cx = Undefined, cy = Undefined, cz = Undefined \<rparr>"

text \<open>\<open>tokens.props\<close>: throws on \<open>undefined\<close>, is \<open>undefined\<close> on an array.\<close>

fun children_props :: "children \<Rightarrow> error + cube option" where
  "children_props NoChildren = Inl TypeError"
| "children_props (Element tprops) = Inr (Some tprops)"
| "children_props (Elements ts) = Inr None"

text \<open>
  \<open>componentWillMount\<close>: the template literal of the final \<open>console.log\<close> reads
  \<open>tokens.x\<close>, which throws when \<open>tokens\<close> is \<open>undefined\<close>. The console output itself
  is not part of the model.
\<close>

definition componentWillMount :: "props \<Rightarrow> state \<Rightarrow> error + state" where
  "componentWillMount p st =
     (let tokens = children p;
          highlightRange = getLimitNeighbors (children_object tokens) (Some (rng p));
          st' = highlightNeighbor st highlightRange
      in case tokens of NoChildren \<Rightarrow> Inl TypeError | _ \<Rightarrow> Inr st')"

text \<open>Construction of the component: the constructor, then \<open>componentWillMount\<close>.\<close>

definition mount :: "props \<Rightarrow> error + state" where
  "mount p = componentWillMount p (constructor p)"

text \<open>The handlers return the new state and the calls they made, in order.\<close>

definition onClick :: "props \<Rightarrow> state \<Rightarrow> cube \<Rightarrow> error + (state \<times> call list)" where
  "onClick p st args =
     (if has_onClick p then
        (case children_props (children p) of
           Inl e \<Rightarrow> Inl e
         | Inr center \<Rightarrow>
            (case inRange args center (Some (rng p)) of
               Inl e \<Rightarrow> Inl e
             | Inr ok \<Rightarrow>
                 if ok then
                   (let highlightRange = getLimitNeighbors (Some args) (Some (rng p))
                    in Inr (highlightNeighbor st highlightRange, [OnClick args]))
                 else Inr (st, [])))
      else Inr (st, []))"

definition onMouseOver :: "props \<Rightarrow> state \<Rightarrow> cube \<Rightarrow> state \<times> call list" where
  "onMouseOver p st args = (if has_onMouseOver p then (st, [OnMouseOver args]) else (st, []))"

definition onMouseOut :: "props \<Rightarrow> state \<Rightarrow> cube \<Rightarrow> state \<times> call list" where
  "onMouseOut p st args = (if has_onMouseOut p then (st, [OnMouseOut args]) else (st, []))"

section \<open>The earlier grid component (the second source file)\<close>

text \<open>Its \<open>_getNearGrids(args)\<close> returns the six neighbours of a cell.\<close>

definition getNearGrids_six :: "cube \<Rightarrow> cube list" where
  "getNearGrids_six args =
     (let x = cx args; y = cy args; z = cz args in
      [ \<lparr> cx = jssub x (Num 1), cy = y, cz = jsadd z (Num 1) \<rparr>,
        \<lparr> cx = jssub x (Num 1), cy = jsadd y (Num 1), cz = z \<rparr>,
        \<lparr> cx = x, cy = jssub y (Num 1), cz = jsadd z (Num 1) \<rparr>,
        \<lparr> cx = jsadd x (Num 1), cy = jssub y (Num 1), cz = z \<rparr>,
        \<lparr> cx = x, cy = jsadd y (Num 1), cz = jssub z (Num 1) \<rparr>,
        \<lparr> cx = jsadd x (Num 1), cy = y, cz = jssub z (Num 1) \<rparr> ])"

section \<open>The vocabulary of the specification\<close>

text \<open>
  A cube coordinate of the specification is a triple of integers; \<open>obj\<close> is the object
  \<open>{x, y, z}\<close> that carries it in the program, and \<open>valid\<close> is the invariant
  \<open>x + y + z = 0\<close>.
\<close>

type_synonym CubeCoordinate = "int \<times> int \<times> int"

definition obj :: "CubeCoordinate \<Rightarrow> cube" where
  "obj c = (case c of (a, b, d) \<Rightarrow> \<lparr> cx = Num a, cy = Num b, cz = Num d \<rparr>)"

definition valid :: "CubeCoordinate \<Rightarrow> bool" where
  "valid c = (case c of (a, b, d) \<Rightarrow> a + b + d = 0)"

text \<open>
  Modelled from the spec: \<open>hexDistance\<close> is not a function of the source; the
  specification defines it as half the sum of the absolute coordinate differences.
\<close>

definition hexDistance :: "CubeCoordinate \<Rightarrow> CubeCoordinate \<Rightarrow> real" where
  "hexDistance a b =
     (case a of (ax, ay, az) \<Rightarrow> case b of (bx, by, bz) \<Rightarrow>
        real_of_int (\<bar>ax - bx\<bar> + \<bar>ay - by\<bar> + \<bar>az - bz\<bar>) / 2)"

text \<open>The invariant read off an object of the program: three numbers of sum 0.\<close>

definition sum_zero :: "cube \<Rightarrow> bool" where
  "sum_zero g =
     (case (cx g, cy g, cz g) of
        (Num a, Num b, Num d) \<Rightarrow> a + b + d = 0
      | _ \<Rightarrow> False)"

text \<open>
  \<open>exact_zone c r\<close>: the range \<open>r\<close> is below \<open>2^53\<close>, so that the loop counters and the
  bound \<open>r + 1\<close> are exact, and every component of \<open>c\<close>, moved by up to \<open>r\<close>, keeps a
  magnitude of at most \<open>2^53\<close>, the range on which integer arithmetic in doubles is exact.
\<close>

definition exact_zone :: "CubeCoordinate \<Rightarrow> int \<Rightarrow> bool" where
  "exact_zone c r =
     (r < 2 ^ 53 \<and>
      (case c of (a, b, d) \<Rightarrow>
         \<bar>a\<bar> + r \<le> 2 ^ 53 \<and> \<bar>b\<bar> + r \<le> 2 ^ 53 \<and> \<bar>d\<bar> + r \<le> 2 ^ 53))"

text \<open>The keys of a colour map (none when the map is \<open>undefined\<close>): the highlight set.\<close>

definition keys_of :: "colormap option \<Rightarrow> string set" where
  "keys_of m = (case m of None \<Rightarrow> {} | Some cm \<Rightarrow> dom cm)"

section \<open>Auxiliary definitions\<close>

text \<open>
  The pairs \<open>(dx, dy)\<close> that the two loops of \<open>_getNearGrids\<close> run through, and the
  coordinate that the loop body builds from a center and such a pair.
\<close>

definition offsets :: "int \<Rightarrow> (int \<times> int) set" where
  "offsets r = (SIGMA dx:{- r..r}. {max (- r) (- dx - r)..min r (- dx + r)})"

definition shift :: "CubeCoordinate \<Rightarrow> int \<times> int \<Rightarrow> CubeCoordinate" where
  "shift c d = (case c of (a, b, e) \<Rightarrow> case d of (dx, dy) \<Rightarrow> (a + dx, b + dy, - a - b - dx - dy))"

text \<open>
  Concrete configurations: a grid of range 1 with an \<open>onClick\<close> callback and one token
  at the origin, as in \<open><HexGrid range={1} onClick={f}><Token x={0} y={0} z={0}/></HexGrid>\<close>;
  the same grid with range \<open>-1\<close>; and the state whose colour map is the one computed
  around a coordinate.
\<close>

definition token_props :: props where
  "token_props =
     \<lparr> rng = 1, colorMap_prop = Map.empty, children = Element (obj (0, 0, 0)),
       has_onClick = True, has_onMouseOver = False, has_onMouseOut = False \<rparr>"

definition negative_props :: props where
  "negative_props = token_props \<lparr> rng := - 1 \<rparr>"

definition around :: "CubeCoordinate \<Rightarrow> int \<Rightarrow> state" where
  "around c r = \<lparr> colorMap = getLimitNeighbors (Some (obj c)) (Some r) \<rparr>"

section \<open>Decimal strings and keys\<close>

text \<open>
  The decimal string of an integer determines the integer, and it holds no comma, so the
  key of an object with three integer properties determines the three integers.
\<close>

lemma digit_inj: "a < 10 \<Longrightarrow> b < 10 \<Longrightarrow> digit a = digit b \<longleftrightarrow> a = b"
  unfolding digit_def by (rule nth_eq_iff_index_eq) simp_all

lemma digit_in: "a < 10 \<Longrightarrow> digit a \<in> set ''0123456789''"
  unfolding digit_def by (rule nth_mem) simp

lemma toString_nat_set: "set (toString_nat n) \<subseteq> set ''0123456789''"
proof (induction n rule: toString_nat.induct)
  case (1 n)
  show ?case
  proof (cases "n < 10")
    case True
    then show ?thesis using digit_in [of n] by (subst toString_nat.simps) simp
  next
    case False
    have "n mod 10 < 10" by simp
    from digit_in [OF this] False 1 show ?thesis
      by (subst toString_nat.simps) simp
  qed
qed

lemma toString_nat_nonempty: "toString_nat n \<noteq> []"
  by (subst toString_nat.simps) simp

lemma toString_nat_inj: "toString_nat m = toString_nat n \<Longrightarrow> m = n"
proof (induction m arbitrary: n rule: toString_nat.induct)
  case (1 m)
  show ?case
  proof (cases "m < 10")
    case m: True
    show ?thesis
    proof (cases "n < 10")
      case True
      with m "1.prems" show ?thesis
        by (simp add: toString_nat.simps [of m] toString_nat.simps [of n] digit_inj)
    next
      case False
      with m "1.prems" toString_nat_nonempty [of "n div 10"] show ?thesis
        by (simp add: toString_nat.simps [of m] toString_nat.simps [of n])
    qed
  next
    case m: False
    show ?thesis
    proof (cases "n < 10")
      case True
      with m "1.prems" toString_nat_nonempty [of "m div 10"] show ?thesis
        by (simp add: toString_nat.simps [of m] toString_nat.simps [of n])
    next
      case False
      with m "1.prems" have eq: "toString_nat (m div 10) = toString_nat (n div 10)"
        and d: "digit (m mod 10) = digit (n mod 10)"
        by (simp_all add: toString_nat.simps [of m] toString_nat.simps [of n])
      from "1.IH" [OF m eq] have "m div 10 = n div 10" .
      moreover from d have "m mod 10 = n mod 10" by (simp add: digit_inj)
      ultimately show ?thesis by (metis div_mult_mod_eq)
    qed
  qed
qed

lemma comma_notin_nat: "CHR '','' \<notin> set (toString_nat n)"
proof
  assume "CHR '','' \<in> set (toString_nat n)"
  with toString_nat_set [of n] have "CHR '','' \<in> set ''0123456789''" by blast
  then show False by simp
qed

lemma minus_notin_nat: "CHR ''-'' \<notin> set (toString_nat n)"
proof
  assume "CHR ''-'' \<in> set (toString_nat n)"
  with toString_nat_set [of n] have "CHR ''-'' \<in> set ''0123456789''" by blast
  then show False by simp
qed

lemma toString_nat_hd: "hd (toString_nat n) \<noteq> CHR ''-''"
proof -
  have "hd (toString_nat n) \<in> set (toString_nat n)"
    by (rule hd_in_set) (rule toString_nat_nonempty)
  with minus_notin_nat [of n] show ?thesis by metis
qed

lemma quantum_small: "m < 2 ^ 53 \<Longrightarrow> quantum m = 1"
  by (subst quantum.simps) simp

lemma quantum_edge: "quantum (2 ^ 53) = 2"
  by (subst quantum.simps) (simp add: quantum_small)

lemma fl_exact:
  assumes "\<bar>n\<bar> \<le> 2 ^ 53"
  shows "fl n = Num n"
proof (cases "nat \<bar>n\<bar> < 2 ^ 53")
  case True
  then have "round_even (nat \<bar>n\<bar>) (quantum (nat \<bar>n\<bar>)) = nat \<bar>n\<bar>"
    by (simp add: quantum_small round_even_def)
  moreover from True have "\<not> (2 :: nat) ^ 1024 \<le> nat \<bar>n\<bar>" by simp
  ultimately show ?thesis by (simp add: fl_def Let_def)
next
  case False
  with assms have e: "nat \<bar>n\<bar> = 2 ^ 53" by simp
  have r: "round_even (nat \<bar>n\<bar>) (quantum (nat \<bar>n\<bar>)) = nat \<bar>n\<bar>"
    unfolding e quantum_edge by (simp add: round_even_def)
  have "\<not> (2 :: nat) ^ 1024 \<le> nat \<bar>n\<bar>" unfolding e by simp
  with r show ?thesis by (simp add: fl_def Let_def)
qed

lemma toString_int_exact:
  assumes "\<bar>i\<bar> \<le> 2 ^ 53"
  shows "toString_int i = (if i < 0 then ''-'' @ toString_nat (nat (- i)) else toString_nat (nat i))"
proof -
  from assms have "nat (- i) \<le> 2 ^ 53" "nat i \<le> 2 ^ 53" by simp_all
  then show ?thesis by (simp add: toString_int_def toString_pos_def)
qed

lemma toString_int_hd:
  "\<bar>i\<bar> \<le> 2 ^ 53 \<Longrightarrow> hd (toString_int i) = CHR ''-'' \<longleftrightarrow> i < 0"
  using toString_nat_hd [of "nat i"] by (simp add: toString_int_exact)

lemma toString_int_inj:
  assumes "\<bar>i\<bar> \<le> 2 ^ 53" and "\<bar>j\<bar> \<le> 2 ^ 53" and eq: "toString_int i = toString_int j"
  shows "i = j"
proof -
  from eq have "hd (toString_int i) = hd (toString_int j)" by simp
  then have sgn: "i < 0 \<longleftrightarrow> j < 0"
    using toString_int_hd [OF assms(1)] toString_int_hd [OF assms(2)] by simp
  show ?thesis
  proof (cases "i < 0")
    case True
    with eq sgn assms(1,2) have "toString_nat (nat (- i)) = toString_nat (nat (- j))"
      by (simp add: toString_int_exact)
    from toString_nat_inj [OF this] True sgn show ?thesis by simp
  next
    case False
    with eq sgn assms(1,2) have "toString_nat (nat i) = toString_nat (nat j)"
      by (simp add: toString_int_exact)
    from toString_nat_inj [OF this] False sgn show ?thesis by simp
  qed
qed

lemma split_at_sep:
  assumes "a @ s # b = a' @ s # b'" and "s \<notin> set a" and "s \<notin> set a'"
  shows "a = a' \<and> b = b'"
  using assms
proof (induction a arbitrary: a')
  case Nil
  then show ?case by (cases a') auto
next
  case (Cons c a)
  then show ?case by (cases a') auto
qed

lemma comma_notin: "\<bar>i\<bar> \<le> 2 ^ 53 \<Longrightarrow> CHR '','' \<notin> set (toString_int i)"
  by (simp add: toString_int_exact comma_notin_nat)

lemma key_obj_inj:
  assumes "exact_zone p 0" and "exact_zone q 0"
  shows "key (obj p) = key (obj q) \<longleftrightarrow> p = q"
proof
  obtain a b c where p: "p = (a, b, c)" by (cases p)
  obtain a' b' c' where q: "q = (a', b', c')" by (cases q)
  from assms p q have z: "\<bar>a\<bar> \<le> 2 ^ 53" "\<bar>b\<bar> \<le> 2 ^ 53" "\<bar>c\<bar> \<le> 2 ^ 53"
    "\<bar>a'\<bar> \<le> 2 ^ 53" "\<bar>b'\<bar> \<le> 2 ^ 53" "\<bar>c'\<bar> \<le> 2 ^ 53"
    by (simp_all add: exact_zone_def)
  assume "key (obj p) = key (obj q)"
  then have e: "toString_int a @ CHR '','' # (toString_int b @ CHR '','' # toString_int c)
      = toString_int a' @ CHR '','' # (toString_int b' @ CHR '','' # toString_int c')"
    by (simp add: key_def obj_def p q)
  from split_at_sep [OF e comma_notin [OF z(1)] comma_notin [OF z(4)]]
  have 1: "toString_int a = toString_int a'"
    and r: "toString_int b @ CHR '','' # toString_int c = toString_int b' @ CHR '','' # toString_int c'"
    by simp_all
  from split_at_sep [OF r comma_notin [OF z(2)] comma_notin [OF z(5)]]
  have 2: "toString_int b = toString_int b'" and 3: "toString_int c = toString_int c'"
    by simp_all
  from toString_int_inj [OF z(1) z(4) 1] toString_int_inj [OF z(2) z(5) 2]
    toString_int_inj [OF z(3) z(6) 3]
  show "p = q" by (simp add: p q)
qed simp

lemma obj_inj: "obj p = obj q \<longleftrightarrow> p = q"
  by (cases p, cases q) (auto simp: obj_def)

section \<open>The range query\<close>

text \<open>
  The loops of \<open>_getNearGrids\<close> push one object for each pair of \<open>offsets\<close>, row by row;
  the keys of the colour map of \<open>getLimitNeighbors\<close> are the keys of these objects and of
  the center. Where the arithmetic is exact, the objects are the coordinates \<open>shift c d\<close>.
\<close>

lemma dy_loop_upto:
  "dy_loop args dx maxDy dy results = results @ map (near args dx) [dy..maxDy]"
proof (induction args dx maxDy dy results rule: dy_loop.induct)
  case (1 args dx maxDy dy results)
  show ?case
  proof (cases "dy < maxDy + 1")
    case True
    then have "[dy..maxDy] = dy # [dy + 1..maxDy]" by (simp add: upto_rec1)
    with True 1 show ?thesis by (subst dy_loop.simps) simp
  next
    case False
    then show ?thesis by (subst dy_loop.simps) simp
  qed
qed

lemma dx_loop_upto:
  "dx_loop args r dx results =
     results @ concat (map (\<lambda>dx. map (near args dx) [max (- r) (- dx - r)..min r (- dx + r)]) [dx..r])"
proof (induction args r dx results rule: dx_loop.induct)
  case (1 args r dx results)
  show ?case
  proof (cases "dx < r + 1")
    case True
    then have "[dx..r] = dx # [dx + 1..r]" by (simp add: upto_rec1)
    with True 1 show ?thesis by (subst dx_loop.simps) (simp add: dy_loop_upto)
  next
    case False
    then show ?thesis by (subst dx_loop.simps) simp
  qed
qed

lemma set_getNearGrids:
  "set (getNearGrids args r) = insert args ((\<lambda>(dx, dy). near args dx dy) ` offsets r)"
  by (auto simp: getNearGrids_def dx_loop_upto offsets_def)

lemma dom_fold_upd:
  "dom (fold (\<lambda>grid colorMap. colorMap(f grid \<mapsto> v)) xs m) = dom m \<union> f ` set xs"
  by (induction xs arbitrary: m) auto

lemma keys_getLimitNeighbors:
  "keys_of (getLimitNeighbors (Some args) (Some r)) = key ` set (getNearGrids args r)"
  by (simp add: keys_of_def getLimitNeighbors_def dom_fold_upd)

lemma offsets_bounds:
  "(dx, dy) \<in> offsets r \<Longrightarrow> \<bar>dx\<bar> \<le> r \<and> \<bar>dy\<bar> \<le> r \<and> \<bar>dx + dy\<bar> \<le> r"
  by (auto simp: offsets_def)

lemma near_obj:
  assumes "valid c" and "exact_zone c r" and "(dx, dy) \<in> offsets r"
  shows "near (obj c) dx dy = obj (shift c (dx, dy))"
proof -
  obtain a b e where c: "c = (a, b, e)" by (cases c)
  from assms(1) c have e: "- a - b = e" by (simp add: valid_def)
  from assms(2) c have z: "\<bar>a\<bar> + r \<le> 2 ^ 53" "\<bar>b\<bar> + r \<le> 2 ^ 53" "\<bar>e\<bar> + r \<le> 2 ^ 53"
    by (simp_all add: exact_zone_def)
  from offsets_bounds [OF assms(3)] have o: "\<bar>dx\<bar> \<le> r" "\<bar>dy\<bar> \<le> r" "\<bar>dx + dy\<bar> \<le> r"
    by simp_all
  from z o have 1: "fl (a + dx) = Num (a + dx)" and 2: "fl (b + dy) = Num (b + dy)"
    by (auto intro!: fl_exact)
  from z o have 3: "fl (- a - b) = Num (- a - b)"
    and 4: "fl (- a - b - dx) = Num (- a - b - dx)"
    and 5: "fl (- a - b - dx - dy) = Num (- a - b - dx - dy)"
    unfolding e by (auto intro!: fl_exact)
  show ?thesis
    by (simp add: near_def obj_def shift_def c 1 2 3 4 5)
qed

lemma shift_zone:
  assumes "valid c" and "exact_zone c r" and "d \<in> offsets r"
  shows "exact_zone (shift c d) 0"
proof -
  obtain a b e where c: "c = (a, b, e)" by (cases c)
  obtain dx dy where d: "d = (dx, dy)" by (cases d)
  from assms(1) c have e: "- a - b = e" by (simp add: valid_def)
  from assms(2) c have z: "\<bar>a\<bar> + r \<le> 2 ^ 53" "\<bar>b\<bar> + r \<le> 2 ^ 53" "\<bar>e\<bar> + r \<le> 2 ^ 53"
    by (simp_all add: exact_zone_def)
  from offsets_bounds [of dx dy r] assms(3) d
  have o: "\<bar>dx\<bar> \<le> r" "\<bar>dy\<bar> \<le> r" "\<bar>dx + dy\<bar> \<le> r"
    by simp_all
  have "\<bar>a + dx\<bar> \<le> 2 ^ 53" "\<bar>b + dy\<bar> \<le> 2 ^ 53" "\<bar>e - dx - dy\<bar> \<le> 2 ^ 53"
    using z o by linarith+
  then show ?thesis by (simp add: exact_zone_def shift_def c d flip: e)
qed

lemma valid_shift_zero: "valid c \<Longrightarrow> shift c (0, 0) = c"
  by (cases c) (auto simp: valid_def shift_def)

lemma zero_offset: "0 \<le> r \<Longrightarrow> (0, 0) \<in> offsets r"
  by (simp add: offsets_def)

lemma set_disk:
  assumes "valid c" and "0 \<le> r" and "exact_zone c r"
  shows "set (getNearGrids (obj c) r) = (\<lambda>d. obj (shift c d)) ` offsets r"
proof -
  have n: "(\<lambda>(dx, dy). near (obj c) dx dy) ` offsets r = (\<lambda>d. obj (shift c d)) ` offsets r"
    by (rule image_cong) (auto simp: near_obj [OF assms(1,3)])
  have "obj c \<in> (\<lambda>d. obj (shift c d)) ` offsets r"
    using zero_offset [OF assms(2)] valid_shift_zero [OF assms(1)] by force
  then show ?thesis by (simp add: set_getNearGrids n insert_absorb)
qed

lemma keys_disk:
  assumes "valid c" and "0 \<le> r" and "exact_zone c r"
  shows "keys_of (getLimitNeighbors (Some (obj c)) (Some r)) = (\<lambda>d. key (obj (shift c d))) ` offsets r"
  by (simp add: keys_getLimitNeighbors set_disk [OF assms] image_image)

lemma half_le_iff: "real_of_int k / 2 \<le> real_of_int r \<longleftrightarrow> k \<le> 2 * r"
proof -
  have "real_of_int k / 2 \<le> real_of_int r \<longleftrightarrow> real_of_int k \<le> real_of_int (2 * r)"
    by (simp add: field_simps)
  also have "\<dots> \<longleftrightarrow> k \<le> 2 * r" by (rule of_int_le_iff)
  finally show ?thesis .
qed

lemma hexDistance_le:
  "hexDistance (a, b, e) (x, y, z) \<le> real_of_int r \<longleftrightarrow> \<bar>a - x\<bar> + \<bar>b - y\<bar> + \<bar>e - z\<bar> \<le> 2 * r"
  by (simp only: hexDistance_def prod.case half_le_iff)

lemma shift_mem:
  assumes "valid c"
  shows "p \<in> shift c ` offsets r \<longleftrightarrow> valid p \<and> hexDistance c p \<le> real_of_int r"
proof -
  obtain a b e where c: "c = (a, b, e)" by (cases c)
  obtain x y z where p: "p = (x, y, z)" by (cases p)
  from assms c have e: "e = - a - b" by (simp add: valid_def)
  have "p \<in> shift c ` offsets r \<longleftrightarrow>
      (\<exists>dx dy. - r \<le> dx \<and> dx \<le> r \<and> max (- r) (- dx - r) \<le> dy \<and> dy \<le> min r (- dx + r)
        \<and> x = a + dx \<and> y = b + dy \<and> z = - a - b - dx - dy)"
    by (auto simp: c p shift_def offsets_def image_iff)
  also have "\<dots> \<longleftrightarrow> (- r \<le> x - a \<and> x - a \<le> r \<and> max (- r) (- (x - a) - r) \<le> y - b
        \<and> y - b \<le> min r (- (x - a) + r) \<and> z = - x - y)"
  proof
    assume "\<exists>dx dy. - r \<le> dx \<and> dx \<le> r \<and> max (- r) (- dx - r) \<le> dy \<and> dy \<le> min r (- dx + r)
        \<and> x = a + dx \<and> y = b + dy \<and> z = - a - b - dx - dy"
    then obtain dx dy where h: "- r \<le> dx" "dx \<le> r" "max (- r) (- dx - r) \<le> dy"
      "dy \<le> min r (- dx + r)" "x = a + dx" "y = b + dy" "z = - a - b - dx - dy"
      by blast
    show "- r \<le> x - a \<and> x - a \<le> r \<and> max (- r) (- (x - a) - r) \<le> y - b
        \<and> y - b \<le> min r (- (x - a) + r) \<and> z = - x - y"
      using h(1-4) unfolding h(5,6,7) by simp
  next
    assume h: "- r \<le> x - a \<and> x - a \<le> r \<and> max (- r) (- (x - a) - r) \<le> y - b
        \<and> y - b \<le> min r (- (x - a) + r) \<and> z = - x - y"
    have "- r \<le> (x - a) \<and> (x - a) \<le> r \<and> max (- r) (- (x - a) - r) \<le> (y - b)
        \<and> (y - b) \<le> min r (- (x - a) + r)
        \<and> x = a + (x - a) \<and> y = b + (y - b) \<and> z = - a - b - (x - a) - (y - b)"
      using h by simp
    then show "\<exists>dx dy. - r \<le> dx \<and> dx \<le> r \<and> max (- r) (- dx - r) \<le> dy \<and> dy \<le> min r (- dx + r)
        \<and> x = a + dx \<and> y = b + dy \<and> z = - a - b - dx - dy"
      by blast
  qed
  also have "\<dots> \<longleftrightarrow> (x + y + z = 0 \<and> \<bar>a - x\<bar> + \<bar>b - y\<bar> + \<bar>e - z\<bar> \<le> 2 * r)"
    unfolding e by (auto simp: max_def min_def)
  also have "\<dots> \<longleftrightarrow> valid p \<and> hexDistance c p \<le> real_of_int r"
    by (simp only: c p valid_def hexDistance_le prod.case)
  finally show ?thesis .
qed







lemma disk_membership:
  assumes "valid c" and "0 \<le> r" and "exact_zone c r" and "exact_zone p 0"
  shows "key (obj p) \<in> keys_of (getLimitNeighbors (Some (obj c)) (Some r))
     \<longleftrightarrow> valid p \<and> hexDistance c p \<le> real_of_int r"
proof -
  have "key (obj p) \<in> keys_of (getLimitNeighbors (Some (obj c)) (Some r))
      \<longleftrightarrow> p \<in> shift c ` offsets r"
    unfolding keys_disk [OF assms(1,2,3)]
    using key_obj_inj [OF assms(4) shift_zone [OF assms(1,3)]] by auto
  then show ?thesis by (simp add: shift_mem [OF assms(1)])
qed

lemma fl_eval:
  "fl 9007199254740993 = Num 9007199254740992"
  "fl (- 9007199254740993) = Num (- 9007199254740992)"
  "fl 9007199254740995 = Num 9007199254740996"
  "fl (- 9007199254740995) = Num (- 9007199254740996)"
  by (simp_all add: fl_def round_even_def quantum.simps Let_def)

lemma edge_disk:
  "getNearGrids (obj (9007199254740992, - 9007199254740992, 0)) 1 =
     map obj [(9007199254740991, - 9007199254740992, 1), (9007199254740991, - 9007199254740991, 0),
              (9007199254740992, - 9007199254740992, 1), (9007199254740992, - 9007199254740992, 0),
              (9007199254740992, - 9007199254740991, - 1), (9007199254740992, - 9007199254740992, 0),
              (9007199254740992, - 9007199254740992, - 1), (9007199254740992, - 9007199254740992, 0)]"
  by (simp add: getNearGrids_def dx_loop.simps dy_loop.simps near_def obj_def Let_def
      fl_exact fl_eval)

lemma edge_six:
  "getNearGrids_six (obj (9007199254740992, - 9007199254740992, 0)) =
     map obj [(9007199254740991, - 9007199254740992, 1), (9007199254740991, - 9007199254740991, 0),
              (9007199254740992, - 9007199254740992, 1), (9007199254740992, - 9007199254740992, 0),
              (9007199254740992, - 9007199254740991, - 1), (9007199254740992, - 9007199254740992, - 1)]"
  by (simp add: getNearGrids_six_def obj_def Let_def fl_exact fl_eval)







lemma sum_zero_obj: "sum_zero (obj c) \<longleftrightarrow> valid c"
  by (cases c) (simp add: sum_zero_def obj_def valid_def)

lemma valid_shift: "valid (shift c d)"
  by (cases c, cases d) (simp add: valid_def shift_def)

lemma getNearGrids_six_obj:
  assumes "exact_zone (x, y, z) 1"
  shows "getNearGrids_six (obj (x, y, z)) =
     map obj [(x - 1, y, z + 1), (x - 1, y + 1, z), (x, y - 1, z + 1),
              (x + 1, y - 1, z), (x, y + 1, z - 1), (x + 1, y, z - 1)]"
proof -
  from assms have "\<bar>x\<bar> + 1 \<le> 2 ^ 53" "\<bar>y\<bar> + 1 \<le> 2 ^ 53" "\<bar>z\<bar> + 1 \<le> 2 ^ 53"
    by (simp_all add: exact_zone_def)
  then have "fl (x - 1) = Num (x - 1)" "fl (x + 1) = Num (x + 1)"
    "fl (y - 1) = Num (y - 1)" "fl (y + 1) = Num (y + 1)"
    "fl (z - 1) = Num (z - 1)" "fl (z + 1) = Num (z + 1)"
    by (auto intro!: fl_exact)
  then show ?thesis by (simp add: getNearGrids_six_def obj_def Let_def)
qed

text \<open>
  Claim C9 says that for every center \<open>c\<close> with \<open>c.x + c.y + c.z = 0\<close> every object returned
  by the range query and by the six-neighbour function satisfies \<open>x + y + z = 0\<close>. Around
  \<open>c = (2^53, -2^53, 0)\<close>, \<open>y - 1\<close> rounds back to \<open>y\<close> while \<open>z\<close> moves: both functions return
  \<open>(2^53, -2^53, 1)\<close>, of sum 1.
\<close>

theorem C9_counterexample:
  "valid (9007199254740992, - 9007199254740992, 0)
   \<and> obj (9007199254740992, - 9007199254740992, 1)
       \<in> set (getNearGrids (obj (9007199254740992, - 9007199254740992, 0)) 1)
   \<and> obj (9007199254740992, - 9007199254740992, 1)
       \<in> set (getNearGrids_six (obj (9007199254740992, - 9007199254740992, 0)))
   \<and> \<not> sum_zero (obj (9007199254740992, - 9007199254740992, 1))"
  unfolding edge_disk edge_six by (simp add: valid_def sum_zero_obj)

text \<open>
  Claim C9, amended. For a center \<open>c\<close> with \<open>c.x + c.y + c.z = 0\<close> and a range
  \<open>0 \<le> r < 2^53\<close> such that every component of \<open>c\<close> has magnitude at most \<open>2^53 - r\<close> and
  at most \<open>2^53 - 1\<close>,
  every object returned by the range query \<open>_getNearGrids(c, r)\<close> and every object
  returned by the six-neighbour function satisfies \<open>x + y + z = 0\<close>.
\<close>

theorem C9_invariant_preserved:
  assumes "valid c" and "0 \<le> r" and "exact_zone c r" and "exact_zone c 1"
  shows "(\<forall>g \<in> set (getNearGrids (obj c) r). sum_zero g)
     \<and> (\<forall>g \<in> set (getNearGrids_six (obj c)). sum_zero g)"
proof
  show "\<forall>g \<in> set (getNearGrids (obj c) r). sum_zero g"
    unfolding set_disk [OF assms(1,2,3)] by (simp add: sum_zero_obj valid_shift)
next
  obtain x y z where c: "c = (x, y, z)" by (cases c)
  with assms(1,4) show "\<forall>g \<in> set (getNearGrids_six (obj c)). sum_zero g"
    by (simp add: getNearGrids_six_obj sum_zero_obj valid_def)
qed

text \<open>At the center \<open>(2,-3,1)\<close> with range 1.\<close>

theorem C9_invariant_preserved_witness:
  "valid (2, - 3, 1) \<and> (0 :: int) \<le> 1 \<and> exact_zone (2, - 3, 1) 1
   \<and> obj (3, - 4, 1) \<in> set (getNearGrids (obj (2, - 3, 1)) 1)
   \<and> obj (3, - 4, 1) \<in> set (getNearGrids_six (obj (2, - 3, 1)))
   \<and> sum_zero (obj (3, - 4, 1))"
proof -
  have v: "valid (2, - 3, 1)" "(0 :: int) \<le> 1" "exact_zone (2, - 3, 1) 1"
    by (simp_all add: valid_def exact_zone_def)
  have "(1, - 1) \<in> offsets 1" by (simp add: offsets_def)
  then have "obj (shift (2, - 3, 1) (1, - 1)) \<in> set (getNearGrids (obj (2, - 3, 1)) 1)"
    unfolding set_disk [OF v] by (rule imageI)
  then have a: "obj (3, - 4, 1) \<in> set (getNearGrids (obj (2, - 3, 1)) 1)"
    by (simp add: shift_def)
  have b: "obj (3, - 4, 1) \<in> set (getNearGrids_six (obj (2, - 3, 1)))"
    by (simp add: getNearGrids_six_obj [OF v(3)])
  from C9_invariant_preserved [OF v v(3)] a b v show ?thesis by blast
qed

text \<open>
  Claim C5 says that for every coordinate \<open>(x, y, z)\<close> the six-neighbour function returns
  \<open>(x-1,y,z+1)\<close>, \<open>(x-1,y+1,z)\<close>, \<open>(x,y-1,z+1)\<close>, \<open>(x+1,y-1,z)\<close>, \<open>(x,y+1,z-1)\<close>, \<open>(x+1,y,z-1)\<close>,
  each at \<open>hexDistance\<close> 1. At \<open>(2^53, -2^53, 0)\<close> the sums \<open>x + 1\<close> and \<open>y - 1\<close> round back:
  the fourth neighbour returned is the cell itself, at distance 0, where the claim has
  \<open>(2^53 + 1, -2^53 - 1, 0)\<close>.
\<close>

theorem C5_counterexample:
  "getNearGrids_six (obj (9007199254740992, - 9007199254740992, 0)) ! 3
     = obj (9007199254740992, - 9007199254740992, 0)
   \<and> obj (9007199254740992, - 9007199254740992, 0)
     \<noteq> obj (9007199254740992 + 1, - 9007199254740992 - 1, 0)
   \<and> hexDistance (9007199254740992, - 9007199254740992, 0)
        (9007199254740992, - 9007199254740992, 0) = 0"
  unfolding edge_six by (simp add: obj_inj hexDistance_def)

text \<open>
  Claim C5, amended. For every coordinate \<open>(x, y, z)\<close> with components of magnitude at most
  \<open>2^53 - 1\<close> (safe integers) the six-neighbour function returns exactly
  \<open>(x-1,y,z+1)\<close>, \<open>(x-1,y+1,z)\<close>, \<open>(x,y-1,z+1)\<close>, \<open>(x+1,y-1,z)\<close>, \<open>(x,y+1,z-1)\<close>,
  \<open>(x+1,y,z-1)\<close>, in this order, and each of them is at \<open>hexDistance\<close> exactly 1 from
  \<open>(x, y, z)\<close>.
\<close>

theorem C5_neighbors6:
  assumes "exact_zone (x, y, z) 1"
  shows "getNearGrids_six (obj (x, y, z)) =
     map obj [(x - 1, y, z + 1), (x - 1, y + 1, z), (x, y - 1, z + 1),
              (x + 1, y - 1, z), (x, y + 1, z - 1), (x + 1, y, z - 1)]
   \<and> list_all (\<lambda>q. hexDistance (x, y, z) q = 1)
        [(x - 1, y, z + 1), (x - 1, y + 1, z), (x, y - 1, z + 1),
         (x + 1, y - 1, z), (x, y + 1, z - 1), (x + 1, y, z - 1)]"
  by (simp add: getNearGrids_six_obj [OF assms] hexDistance_def)

text \<open>The neighbours of the largest safe cell \<open>(2^53 - 1, -(2^53 - 1), 0)\<close>.\<close>

theorem C5_neighbors6_witness:
  "exact_zone (9007199254740991, - 9007199254740991, 0) 1
   \<and> getNearGrids_six (obj (9007199254740991, - 9007199254740991, 0)) =
     map obj [(9007199254740990, - 9007199254740991, 1), (9007199254740990, - 9007199254740990, 0),
              (9007199254740991, - 9007199254740992, 1), (9007199254740992, - 9007199254740992, 0),
              (9007199254740991, - 9007199254740990, - 1), (9007199254740992, - 9007199254740991, - 1)]
   \<and> hexDistance (9007199254740991, - 9007199254740991, 0)
        (9007199254740992, - 9007199254740992, 0) = 1"
proof -
  have z: "exact_zone (9007199254740991, - 9007199254740991, 0) 1"
    by (simp add: exact_zone_def)
  from C5_neighbors6 [OF z] z show ?thesis by simp
qed

section \<open>The handlers\<close>

text \<open>The click handler and \<open>componentWillMount\<close> on a grid whose child is one token.\<close>

lemma inRange_keys:
  "inRange target (Some c) (Some r) = Inr (key target \<in> keys_of (getLimitNeighbors (Some c) (Some r)))"
  by (simp add: inRange_def keys_of_def getLimitNeighbors_def)

lemma onClick_element:
  assumes "has_onClick p" and "children p = Element c"
  shows "onClick p st t =
     Inr (if key t \<in> keys_of (getLimitNeighbors (Some c) (Some (rng p)))
          then (st\<lparr> colorMap := getLimitNeighbors (Some t) (Some (rng p)) \<rparr>, [OnClick t])
          else (st, []))"
  using assms by (simp add: onClick_def inRange_keys highlightNeighbor_def)

lemma mount_element:
  "children p = Element c \<Longrightarrow>
   mount p = Inr \<lparr> colorMap =
      getLimitNeighbors (Some \<lparr> cx = Undefined, cy = Undefined, cz = Undefined \<rparr>) (Some (rng p)) \<rparr>"
  by (simp add: mount_def componentWillMount_def constructor_def highlightNeighbor_def)

lemma getNearGrids_negative: "r < 0 \<Longrightarrow> getNearGrids args r = [args]"
  by (simp add: getNearGrids_def dx_loop.simps)

lemma getLimitNeighbors_negative:
  "r < 0 \<Longrightarrow> getLimitNeighbors (Some args) (Some r) = Some [key args \<mapsto> ''#22ff66'']"
  by (simp add: getLimitNeighbors_def getNearGrids_negative)

lemma getLimitNeighbors_undefined_1:
  "getLimitNeighbors (Some \<lparr> cx = Undefined, cy = Undefined, cz = Undefined \<rparr>) (Some 1) =
   Some [''NaN,NaN,NaN'' \<mapsto> ''#22ff66'', ''undefined,undefined,undefined'' \<mapsto> ''#22ff66'']"
  by (simp add: getLimitNeighbors_def getNearGrids_def dx_loop.simps dy_loop.simps near_def key_def)

lemma key_origin: "key (obj (0, 0, 0)) = ''0,0,0''"
  by (simp add: key_def obj_def toString_int_def toString_pos_def toString_nat.simps digit_def)

lemma mount_token_props:
  "mount token_props = Inr \<lparr> colorMap = Some [''NaN,NaN,NaN'' \<mapsto> ''#22ff66'',
        ''undefined,undefined,undefined'' \<mapsto> ''#22ff66''] \<rparr>"
  by (simp add: mount_element [where c = "obj (0, 0, 0)"] token_props_def
      getLimitNeighbors_undefined_1)

lemma token_props_simps:
  "has_onClick token_props" "children token_props = Element (obj (0, 0, 0))" "rng token_props = 1"
  by (simp_all add: token_props_def)

lemma origin_disk_1:
  "key (obj (0, 0, 0)) \<in> keys_of (getLimitNeighbors (Some (obj (0, 0, 0))) (Some 1))"
  "key (obj (1, - 1, 0)) \<in> keys_of (getLimitNeighbors (Some (obj (0, 0, 0))) (Some 1))"
  "key (obj (1, 0, - 1)) \<in> keys_of (getLimitNeighbors (Some (obj (0, 0, 0))) (Some 1))"
  "key (obj (2, - 2, 0)) \<notin> keys_of (getLimitNeighbors (Some (obj (0, 0, 0))) (Some 1))"
  by (simp_all add: disk_membership valid_def exact_zone_def hexDistance_def)




text \<open>
  Claim C4 says that after construction the highlight set is the range query around the
  token's position. \<open>componentWillMount\<close> passes \<open>props.children\<close> itself, the React
  element, where \<open>onClick\<close> passes \<open>props.children.props\<close>; the element has no \<open>x\<close>, \<open>y\<close>,
  \<open>z\<close>. For the grid \<open>token_props\<close> the keys after construction are \<open>NaN,NaN,NaN\<close> and
  \<open>undefined,undefined,undefined\<close>: the token's own cell \<open>0,0,0\<close>, which is in the range
  query around the token, is not highlighted.
\<close>

theorem C4_mount_highlight:
  "mount token_props = Inr \<lparr> colorMap = Some [''NaN,NaN,NaN'' \<mapsto> ''#22ff66'',
        ''undefined,undefined,undefined'' \<mapsto> ''#22ff66''] \<rparr>
   \<and> children token_props = Element (obj (0, 0, 0))
   \<and> key (obj (0, 0, 0)) \<in> keys_of (getLimitNeighbors (Some (obj (0, 0, 0))) (Some (rng token_props)))
   \<and> key (obj (0, 0, 0)) \<notin> keys_of (Some [''NaN,NaN,NaN'' \<mapsto> ''#22ff66'',
        ''undefined,undefined,undefined'' \<mapsto> ''#22ff66''])"
proof -
  have "key (obj (0, 0, 0)) \<notin> keys_of (Some [''NaN,NaN,NaN'' \<mapsto> ''#22ff66'',
        ''undefined,undefined,undefined'' \<mapsto> ''#22ff66''])"
    by (simp add: key_origin keys_of_def)
  with mount_token_props origin_disk_1(1) show ?thesis
    by (simp add: token_props_simps)
qed

text \<open>
  Claim C7 says that a negative range is rejected at construction. Nothing in the source
  validates the range: the grid \<open>negative_props\<close> (range \<open>-1\<close>) is constructed, and a click
  on the token's cell is accepted and computes a highlight set.
\<close>

theorem C7_counterexample:
  "rng negative_props < 0
   \<and> mount negative_props =
        Inr \<lparr> colorMap = Some [''undefined,undefined,undefined'' \<mapsto> ''#22ff66''] \<rparr>
   \<and> onClick negative_props (around (0, 0, 0) (- 1)) (obj (0, 0, 0)) =
        Inr (\<lparr> colorMap = Some [''0,0,0'' \<mapsto> ''#22ff66''] \<rparr>, [OnClick (obj (0, 0, 0))])"
proof -
  have p: "has_onClick negative_props" "children negative_props = Element (obj (0, 0, 0))"
    "rng negative_props = - 1"
    by (simp_all add: negative_props_def token_props_def)
  have u: "key \<lparr> cx = Undefined, cy = Undefined, cz = Undefined \<rparr> = ''undefined,undefined,undefined''"
    by (simp add: key_def)
  have m: "mount negative_props =
        Inr \<lparr> colorMap = Some [''undefined,undefined,undefined'' \<mapsto> ''#22ff66''] \<rparr>"
    by (simp add: mount_element [OF p(2)] p(3) getLimitNeighbors_negative u)
  have c: "onClick negative_props (around (0, 0, 0) (- 1)) (obj (0, 0, 0)) =
        Inr (\<lparr> colorMap = Some [''0,0,0'' \<mapsto> ''#22ff66''] \<rparr>, [OnClick (obj (0, 0, 0))])"
    by (simp add: onClick_element [OF p(1,2)] p(3) getLimitNeighbors_negative keys_of_def
        around_def key_origin)
  from p(3) m c show ?thesis by simp
qed

text \<open>
  Claim C7, amended. A negative integer range is not rejected: construction succeeds
  whenever the grid has a child, and for every negative integer range both loops of
  \<open>_getNearGrids\<close> are empty, so the range query around any cell yields the key of that
  cell alone.
\<close>

theorem C7_negative_range:
  assumes "rng p < 0" and "children p \<noteq> NoChildren"
  shows "\<not> isl (mount p)
     \<and> getNearGrids args (rng p) = [args]
     \<and> getLimitNeighbors (Some args) (Some (rng p)) = Some [key args \<mapsto> ''#22ff66'']"
  using assms
  by (cases "children p")
     (simp_all add: mount_def componentWillMount_def getLimitNeighbors_negative
        getNearGrids_negative)

text \<open>The grid of range \<open>-1\<close> with a token at the origin.\<close>

theorem C7_negative_range_witness:
  "rng negative_props < 0 \<and> children negative_props \<noteq> NoChildren
   \<and> \<not> isl (mount negative_props)
   \<and> getNearGrids (obj (0, 0, 0)) (rng negative_props) = [obj (0, 0, 0)]
   \<and> getLimitNeighbors (Some (obj (0, 0, 0))) (Some (rng negative_props)) =
        Some [''0,0,0'' \<mapsto> ''#22ff66'']"
proof -
  have p: "rng negative_props < 0" "children negative_props \<noteq> NoChildren"
    by (simp_all add: negative_props_def token_props_def)
  from C7_negative_range [OF p, of "obj (0, 0, 0)"] p show ?thesis
    by (simp add: key_origin)
qed

text \<open>
  Claim C8. For every hover-start and hover-end event, with any coordinate, the handler
  passes the event on to the hover callback of the props (when there is one: there is
  nothing to call otherwise) and leaves the highlight state unchanged.
\<close>

theorem C8_hover:
  "onMouseOver p st args = (st, if has_onMouseOver p then [OnMouseOver args] else [])
   \<and> onMouseOut p st args = (st, if has_onMouseOut p then [OnMouseOut args] else [])"
  by (simp add: onMouseOver_def onMouseOut_def)

text \<open>
  Claim C10. If no \<open>onClick\<close> callback is configured, every click, also one on a cell of
  the current highlight set, leaves the highlight state unchanged and calls nothing.
\<close>

theorem C10_no_callback:
  assumes "\<not> has_onClick p"
  shows "onClick p st args = Inr (st, [])"
  using assms by (simp add: onClick_def)

text \<open>
  Without the callback, a click on \<open>(1,0,-1)\<close>, which is in the highlight set around the
  origin, is dropped.
\<close>

theorem C10_no_callback_witness:
  "\<not> has_onClick (token_props \<lparr> has_onClick := False \<rparr>)
   \<and> key (obj (1, 0, - 1)) \<in> keys_of (colorMap (around (0, 0, 0) 1))
   \<and> onClick (token_props \<lparr> has_onClick := False \<rparr>) (around (0, 0, 0) 1) (obj (1, 0, - 1))
        = Inr (around (0, 0, 0) 1, [])"
proof -
  have n: "\<not> has_onClick (token_props \<lparr> has_onClick := False \<rparr>)" by simp
  have "key (obj (1, 0, - 1)) \<in> keys_of (colorMap (around (0, 0, 0) 1))"
    by (simp add: around_def origin_disk_1)
  with n C10_no_callback [OF n, of "around (0, 0, 0) 1" "obj (1, 0, - 1)"] show ?thesis by simp
qed

end
